theory Spec2Isabelle
  imports Main "HOL-Library.Word"
begin

unbundle bit_operations_syntax

section \<open>Bytes, fixed-size arrays and hexadecimal text\<close>

text \<open>
  A Go \<^verbatim>\<open>byte\<close> is an 8-bit word, a \<^verbatim>\<open>[]byte\<close> a list of them, and a Go
  \<^verbatim>\<open>string\<close> a list of characters.  A \<^verbatim>\<open>[32]byte\<close> is a list of bytes of
  length 32; every function of the program that returns one builds it with
  \<open>copy32\<close>, the model of \<^verbatim>\<open>var out [32]byte; copy(out[:], raw)\<close>: the first 32
  bytes of \<open>raw\<close>, zero-filled when \<open>raw\<close> is shorter.
\<close>

type_synonym byte = "8 word"

definition zero32 :: "byte list" where
  "zero32 = replicate 32 0"

definition copy32 :: "byte list \<Rightarrow> byte list" where
  "copy32 raw = take 32 (raw @ zero32)"

subsection \<open>Package encoding/hex of the Go standard library\<close>

text \<open>
  \<^verbatim>\<open>const hextable = "0123456789abcdef"\<close>; \<^verbatim>\<open>EncodeToString\<close> writes
  \<^verbatim>\<open>hextable[v>>4]\<close> and \<^verbatim>\<open>hextable[v&0x0f]\<close> for every byte \<^verbatim>\<open>v\<close>.
\<close>

definition hextable :: string where
  "hextable = ''0123456789abcdef''"

fun EncodeToString :: "byte list \<Rightarrow> string" where
  "EncodeToString [] = []"
| "EncodeToString (v # src) =
     hextable ! unat (drop_bit 4 v) # hextable ! unat (v AND 0x0f) # EncodeToString src"

text \<open>
  \<^verbatim>\<open>reverseHexTable\<close> maps the digits, \<^verbatim>\<open>a\<close>..\<^verbatim>\<open>f\<close> and \<^verbatim>\<open>A\<close>..\<^verbatim>\<open>F\<close> to their
  values and every other byte to \<^verbatim>\<open>0xff\<close>.
\<close>

definition reverseHexTable :: "char \<Rightarrow> byte" where
  "reverseHexTable c =
     (let n = (of_char c :: nat) in
      if 48 \<le> n \<and> n \<le> 57 then of_nat (n - 48)
      else if 97 \<le> n \<and> n \<le> 102 then of_nat (n - 87)
      else if 65 \<le> n \<and> n \<le> 70 then of_nat (n - 55)
      else 0xff)"

datatype hex_error = InvalidByteError char | ErrLength

text \<open>
  \<^verbatim>\<open>DecodeString\<close> returns the bytes decoded before the first error together with
  that error: callers that drop the error (\<^verbatim>\<open>raw, _ := hex.DecodeString(s)\<close>) go on
  with the decoded prefix.  The loop reads two characters at a time; an odd last
  character is reported as invalid when it is no hex digit and as \<^verbatim>\<open>ErrLength\<close>
  otherwise.
\<close>

fun DecodeString :: "string \<Rightarrow> byte list \<times> hex_error option" where
  "DecodeString (p # q # src) =
     (let a = reverseHexTable p; b = reverseHexTable q in
      if a > 0x0f then ([], Some (InvalidByteError p))
      else if b > 0x0f then ([], Some (InvalidByteError q))
      else (case DecodeString src of (dst, err) \<Rightarrow> ((push_bit 4 a OR b) # dst, err)))"
| "DecodeString [p] =
     (if reverseHexTable p > 0x0f then ([], Some (InvalidByteError p))
      else ([], Some ErrLength))"
| "DecodeString [] = ([], None)"

section \<open>Package x3dh: serialisation of keys\<close>

datatype ecdh_error =
    RandFailed             \<comment> \<open>the random source returned an error\<close>
  | InvalidPrivateKeySize  \<comment> \<open>\<^verbatim>\<open>crypto/ecdh: invalid private key size\<close>\<close>
  | InvalidPublicKey       \<comment> \<open>\<^verbatim>\<open>crypto/ecdh: invalid public key\<close>\<close>
  | BadRemoteInput         \<comment> \<open>\<^verbatim>\<open>crypto/ecdh: bad X25519 remote ECDH input\<close>\<close>

datatype error =
    HexDecodeFailed hex_error     \<comment> \<open>\<^verbatim>\<open>failed to decode hex string\<close>\<close>
  | Expected32Bytes nat           \<comment> \<open>\<^verbatim>\<open>expected 32 bytes, got %d\<close>\<close>
  | GenKeyFailed ecdh_error       \<comment> \<open>\<^verbatim>\<open>failed to generate X25519 key pair\<close>\<close>
  | NilPrivateKey                 \<comment> \<open>\<^verbatim>\<open>private key is nil\<close>\<close>
  | PublicKeyFailed ecdh_error    \<comment> \<open>\<^verbatim>\<open>failed to create public key from bytes\<close>\<close>
  | SharedSecretFailed ecdh_error \<comment> \<open>\<^verbatim>\<open>failed to compute DH shared secret\<close>\<close>

definition encode32 :: "byte list \<Rightarrow> string" where
  "encode32 pk = EncodeToString pk"

definition decode32 :: "string \<Rightarrow> error + byte list" where
  "decode32 s =
     (case DecodeString s of
        (raw, Some err) \<Rightarrow> Inl (HexDecodeFailed err)
      | (raw, None) \<Rightarrow>
          if length raw \<noteq> 32 then Inl (Expected32Bytes (length raw))
          else Inr (copy32 raw))"

section \<open>Package crypto/ecdh of the Go standard library: X25519\<close>

text \<open>
  The curve arithmetic is not part of the repository; \<^verbatim>\<open>x3dh.DH\<close> and
  \<^verbatim>\<open>x3dh.GenKeyPair\<close> reach it through \<^verbatim>\<open>ecdh.X25519()\<close>.  The functions of the
  program take the scalar multiplication as an argument \<open>X\<close>; \<open>x25519\<close> below is
  the one crypto/ecdh computes (\<^verbatim>\<open>x25519ScalarMult\<close>, the Montgomery ladder of
  RFC 7748 over the field of order \<open>2^255 - 19\<close>).
\<close>

definition p25519 :: int where
  "p25519 = 2 ^ 255 - 19"

fun le_int :: "byte list \<Rightarrow> int" where
  "le_int [] = 0"
| "le_int (b # bs) = uint b + 256 * le_int bs"

fun int_le :: "nat \<Rightarrow> int \<Rightarrow> byte list" where
  "int_le 0 v = []"
| "int_le (Suc n) v = word_of_int (v mod 256) # int_le n (v div 256)"

definition fadd :: "int \<Rightarrow> int \<Rightarrow> int" where
  "fadd a b = (a + b) mod p25519"

definition fsub :: "int \<Rightarrow> int \<Rightarrow> int" where
  "fsub a b = (a - b) mod p25519"

definition fmul :: "int \<Rightarrow> int \<Rightarrow> int" where
  "fmul a b = (a * b) mod p25519"

text \<open>\<^verbatim>\<open>Invert\<close> raises to the power \<open>p - 2\<close>; the inverse of 0 is 0.\<close>

fun fpow :: "int \<Rightarrow> nat \<Rightarrow> int" where
  "fpow z n =
     (if n = 0 then 1
      else (let h = fpow z (n div 2); s = fmul h h in
            if even n then s else fmul s z))"

definition Invert :: "int \<Rightarrow> int" where
  "Invert z = fpow z (nat (p25519 - 2))"

text \<open>
  \<^verbatim>\<open>SetBytes\<close> reads 32 bytes little-endian and ignores the top bit; \<^verbatim>\<open>Bytes\<close>
  writes the reduced value.
\<close>

definition SetBytes :: "byte list \<Rightarrow> int" where
  "SetBytes x = (le_int (copy32 x) mod 2 ^ 255) mod p25519"

definition Bytes :: "int \<Rightarrow> byte list" where
  "Bytes v = int_le 32 (v mod p25519)"

text \<open>
  \<^verbatim>\<open>e[0] &= 248; e[31] &= 127; e[31] |= 64\<close> on a copy of the scalar, and bit
  \<^verbatim>\<open>pos\<close> of it: \<^verbatim>\<open>(e[pos/8] >> (pos&7)) & 1\<close>.
\<close>

definition clamp :: "byte list \<Rightarrow> byte list" where
  "clamp scalar =
     (let e = copy32 scalar;
          e = e[0 := e ! 0 AND 248];
          e = e[31 := e ! 31 AND 127];
          e = e[31 := e ! 31 OR 64]
      in e)"

definition scalar_bit :: "byte list \<Rightarrow> nat \<Rightarrow> bool" where
  "scalar_bit e pos = (drop_bit (pos mod 8) (e ! (pos div 8)) AND 1 = 1)"

type_synonym ladder_state = "int \<times> int \<times> int \<times> int \<times> bool"

definition ladder_step :: "int \<Rightarrow> bool \<Rightarrow> ladder_state \<Rightarrow> ladder_state" where
  "ladder_step x1 b s =
     (case s of (x2, z2, x3, z3, swap) \<Rightarrow>
        let swap = (swap \<noteq> b);
            (x2, x3) = (if swap then (x3, x2) else (x2, x3));
            (z2, z3) = (if swap then (z3, z2) else (z2, z3));
            tmp0 = fsub x3 z3;
            tmp1 = fsub x2 z2;
            x2 = fadd x2 z2;
            z2 = fadd x3 z3;
            z3 = fmul tmp0 x2;
            z2 = fmul z2 tmp1;
            tmp0 = fmul tmp1 tmp1;
            tmp1 = fmul x2 x2;
            x3 = fadd z3 z2;
            z2 = fsub z3 z2;
            x2 = fmul tmp1 tmp0;
            tmp1 = fsub tmp1 tmp0;
            z2 = fmul z2 z2;
            z3 = fmul tmp1 121666;
            x3 = fmul x3 x3;
            tmp0 = fadd tmp0 z3;
            z3 = fmul x1 z2;
            z2 = fmul tmp1 tmp0
        in (x2, z2, x3, z3, b))"

text \<open>The loop \<^verbatim>\<open>for pos := 254; pos >= 0; pos--\<close>: \<open>ladder x1 e 255\<close>.\<close>

fun ladder :: "int \<Rightarrow> byte list \<Rightarrow> nat \<Rightarrow> ladder_state \<Rightarrow> ladder_state" where
  "ladder x1 e 0 s = s"
| "ladder x1 e (Suc pos) s = ladder x1 e pos (ladder_step x1 (scalar_bit e pos) s)"

definition x25519 :: "byte list \<Rightarrow> byte list \<Rightarrow> byte list" where
  "x25519 scalar point =
     (let e = clamp scalar;
          x1 = SetBytes point
      in case ladder x1 e 255 (1, 0, x1, 1, False) of
           (x2, z2, x3, z3, swap) \<Rightarrow>
             let z2 = (if swap then z3 else z2);
                 x2 = (if swap then x3 else x2)
             in Bytes (fmul x2 (Invert z2)))"

definition x25519Basepoint :: "byte list" where
  "x25519Basepoint = 9 # replicate 31 0"

text \<open>
  \<^verbatim>\<open>NewPrivateKey\<close> and \<^verbatim>\<open>NewPublicKey\<close> of the X25519 curve check the length
  and nothing else; \<^verbatim>\<open>GenerateKey\<close> reads 32 bytes from the random source (\<open>None\<close>
  when the source fails); \<^verbatim>\<open>ECDH\<close> rejects an all-zero result.
\<close>

type_synonym scalar_mult = "byte list \<Rightarrow> byte list \<Rightarrow> byte list"

definition NewPrivateKey :: "byte list \<Rightarrow> ecdh_error + byte list" where
  "NewPrivateKey key = (if length key \<noteq> 32 then Inl InvalidPrivateKeySize else Inr key)"

definition NewPublicKey :: "byte list \<Rightarrow> ecdh_error + byte list" where
  "NewPublicKey key = (if length key \<noteq> 32 then Inl InvalidPublicKey else Inr key)"

definition GenerateKey :: "byte list option \<Rightarrow> ecdh_error + byte list" where
  "GenerateKey rnd = (case rnd of None \<Rightarrow> Inl RandFailed | Some key \<Rightarrow> NewPrivateKey key)"

definition PublicKey :: "scalar_mult \<Rightarrow> byte list \<Rightarrow> byte list" where
  "PublicKey X priv = X priv x25519Basepoint"

definition isZero :: "byte list \<Rightarrow> bool" where
  "isZero x = (\<forall>b \<in> set x. b = 0)"

definition ECDH :: "scalar_mult \<Rightarrow> byte list \<Rightarrow> byte list \<Rightarrow> ecdh_error + byte list" where
  "ECDH X local remote =
     (let out = X local remote in if isZero out then Inl BadRemoteInput else Inr out)"

section \<open>Package x3dh: key pairs, Diffie-Hellman and key derivation\<close>

text \<open>
  A \<^verbatim>\<open>*ecdh.PrivateKey\<close> is \<open>None\<close> when the pointer is nil and \<open>Some\<close> of the
  32-byte scalar otherwise.
\<close>

definition GenKeyPair :: "scalar_mult \<Rightarrow> byte list option \<Rightarrow> error + (byte list \<times> byte list)" where
  "GenKeyPair X rnd =
     (case GenerateKey rnd of
        Inl err \<Rightarrow> Inl (GenKeyFailed err)
      | Inr priv \<Rightarrow> Inr (priv, copy32 (PublicKey X priv)))"

definition DH :: "scalar_mult \<Rightarrow> byte list option \<Rightarrow> byte list \<Rightarrow> error + byte list" where
  "DH X priv pub32 =
     (case priv of
        None \<Rightarrow> Inl NilPrivateKey
      | Some k \<Rightarrow>
          (case NewPublicKey pub32 of
             Inl err \<Rightarrow> Inl (PublicKeyFailed err)
           | Inr pub \<Rightarrow>
               (case ECDH X k pub of
                  Inl err \<Rightarrow> Inl (SharedSecretFailed err)
                | Inr shared \<Rightarrow> Inr (copy32 shared))))"

text \<open>
  \<^verbatim>\<open>KDF\<close> writes the parts into one SHA-256 state in order and copies the sum.
  The hash function of crypto/sha256 is the argument \<open>H\<close>.
\<close>

definition KDF :: "(byte list \<Rightarrow> byte list) \<Rightarrow> byte list list \<Rightarrow> byte list" where
  "KDF H parts = copy32 (H (concat parts))"

section \<open>Package golang.org/x/crypto/chacha20poly1305\<close>

text \<open>
  The AEAD of RFC 8439 as the package computes it: the ChaCha20 block function, the
  Poly1305 authenticator, and \<^verbatim>\<open>Seal\<close> and \<^verbatim>\<open>Open\<close> with the checks they make
  before any work (\<^verbatim>\<open>KeySize = 32\<close>, \<^verbatim>\<open>NonceSize = 12\<close>, a tag of 16 bytes).
\<close>

type_synonym u32 = "32 word"

fun le32s :: "nat \<Rightarrow> byte list \<Rightarrow> u32 list" where
  "le32s 0 bs = []"
| "le32s (Suc n) bs = word_of_int (le_int (take 4 bs)) # le32s n (drop 4 bs)"

definition quarterRound :: "nat \<Rightarrow> nat \<Rightarrow> nat \<Rightarrow> nat \<Rightarrow> u32 list \<Rightarrow> u32 list" where
  "quarterRound a b c d s =
     (let s = s[a := s ! a + s ! b]; s = s[d := word_rotl 16 (s ! d XOR s ! a)];
          s = s[c := s ! c + s ! d]; s = s[b := word_rotl 12 (s ! b XOR s ! c)];
          s = s[a := s ! a + s ! b]; s = s[d := word_rotl 8 (s ! d XOR s ! a)];
          s = s[c := s ! c + s ! d]; s = s[b := word_rotl 7 (s ! b XOR s ! c)]
      in s)"

definition doubleRound :: "u32 list \<Rightarrow> u32 list" where
  "doubleRound s =
     (let s = quarterRound 0 4 8 12 s; s = quarterRound 1 5 9 13 s;
          s = quarterRound 2 6 10 14 s; s = quarterRound 3 7 11 15 s;
          s = quarterRound 0 5 10 15 s; s = quarterRound 1 6 11 12 s;
          s = quarterRound 2 7 8 13 s; s = quarterRound 3 4 9 14 s
      in s)"

definition chacha20_init :: "byte list \<Rightarrow> byte list \<Rightarrow> u32 \<Rightarrow> u32 list" where
  "chacha20_init key nonce counter =
     [0x61707865, 0x3320646e, 0x79622d32, 0x6b206574] @ le32s 8 key @ [counter] @ le32s 3 nonce"

definition chacha20_block :: "byte list \<Rightarrow> byte list \<Rightarrow> u32 \<Rightarrow> byte list" where
  "chacha20_block key nonce counter =
     (let s0 = chacha20_init key nonce counter;
          s = (doubleRound ^^ 10) s0
      in concat (map (\<lambda>w. int_le 4 (uint w)) (map2 (+) s s0)))"

text \<open>
  The key stream of \<open>n\<close> bytes that starts at block \<open>counter\<close>, and
  \<^verbatim>\<open>XORKeyStream\<close>, which adds it to the data byte by byte.
\<close>

definition keystream :: "byte list \<Rightarrow> byte list \<Rightarrow> nat \<Rightarrow> nat \<Rightarrow> byte list" where
  "keystream key nonce counter n =
     take n (concat (map (\<lambda>i. chacha20_block key nonce (of_nat (counter + i)))
                      [0..<(n + 63) div 64]))"

definition XORKeyStream :: "byte list \<Rightarrow> byte list \<Rightarrow> nat \<Rightarrow> byte list \<Rightarrow> byte list" where
  "XORKeyStream key nonce counter src =
     map2 (XOR) src (keystream key nonce counter (length src))"

text \<open>
  Poly1305: the accumulator takes each block of at most 16 bytes, with a 1 bit set
  above it, and is multiplied by the clamped \<open>r\<close> modulo \<open>2^130 - 5\<close>; the tag is
  the sum with \<open>s\<close>, 16 bytes little-endian.
\<close>

fun poly1305_blocks :: "int \<Rightarrow> int \<Rightarrow> byte list \<Rightarrow> int" where
  "poly1305_blocks r acc m =
     (if m = [] then acc
      else poly1305_blocks r
             (((acc + le_int (take 16 m) + 2 ^ (8 * length (take 16 m))) * r) mod (2 ^ 130 - 5))
             (drop 16 m))"

definition poly1305 :: "byte list \<Rightarrow> byte list \<Rightarrow> byte list" where
  "poly1305 key m =
     (let r = le_int (take 16 key) AND 0x0ffffffc0ffffffc0ffffffc0fffffff;
          s = le_int (take 16 (drop 16 key))
      in int_le 16 ((poly1305_blocks r 0 m + s) mod 2 ^ 128))"

text \<open>
  \<^verbatim>\<open>writeWithPadding\<close> fills the data up to a multiple of 16 bytes with zeros;
  the two lengths follow as 64-bit little-endian numbers.  The one-time Poly1305
  key is the first 32 bytes of the key stream of block 0; the text is encrypted
  from block 1.
\<close>

definition pad16 :: "byte list \<Rightarrow> byte list" where
  "pad16 x = x @ replicate ((16 - length x mod 16) mod 16) 0"

definition aead_tag :: "byte list \<Rightarrow> byte list \<Rightarrow> byte list \<Rightarrow> byte list \<Rightarrow> byte list" where
  "aead_tag key nonce additionalData ciphertext =
     poly1305 (keystream key nonce 0 32)
       (pad16 additionalData @ pad16 ciphertext
        @ int_le 8 (int (length additionalData)) @ int_le 8 (int (length ciphertext)))"

datatype aead_error =
    BadKeyLength              \<comment> \<open>\<^verbatim>\<open>chacha20poly1305: bad key length\<close>, returned by \<^verbatim>\<open>New\<close>\<close>
  | PanicBadNonceLength       \<comment> \<open>\<^verbatim>\<open>panic: bad nonce length passed to Seal\<close> or \<^verbatim>\<open>Open\<close>\<close>
  | PanicPlaintextTooLarge    \<comment> \<open>\<^verbatim>\<open>panic: plaintext too large\<close>\<close>
  | PanicCiphertextTooLarge   \<comment> \<open>\<^verbatim>\<open>panic: ciphertext too large\<close>\<close>
  | AuthenticationFailed      \<comment> \<open>\<^verbatim>\<open>errOpen\<close>: message authentication failed\<close>

definition New :: "byte list \<Rightarrow> aead_error + byte list" where
  "New key = (if length key \<noteq> 32 then Inl BadKeyLength else Inr key)"

definition Seal :: "byte list \<Rightarrow> byte list \<Rightarrow> byte list \<Rightarrow> byte list \<Rightarrow> aead_error + byte list" where
  "Seal key nonce plaintext additionalData =
     (if length nonce \<noteq> 12 then Inl PanicBadNonceLength
      else if length plaintext > 2 ^ 38 - 64 then Inl PanicPlaintextTooLarge
      else (let ciphertext = XORKeyStream key nonce 1 plaintext
            in Inr (ciphertext @ aead_tag key nonce additionalData ciphertext)))"

definition Open :: "byte list \<Rightarrow> byte list \<Rightarrow> byte list \<Rightarrow> byte list \<Rightarrow> aead_error + byte list" where
  "Open key nonce ciphertext additionalData =
     (if length nonce \<noteq> 12 then Inl PanicBadNonceLength
      else if length ciphertext < 16 then Inl AuthenticationFailed
      else if length ciphertext > 2 ^ 38 - 48 then Inl PanicCiphertextTooLarge
      else (let tag = drop (length ciphertext - 16) ciphertext;
                body = take (length ciphertext - 16) ciphertext
            in if aead_tag key nonce additionalData body \<noteq> tag then Inl AuthenticationFailed
               else Inr (XORKeyStream key nonce 1 body)))"

section \<open>Package crypto/ed25519 of the Go standard library\<close>

text \<open>
  \<^verbatim>\<open>ed25519.Verify\<close> panics when the public key has not 32 bytes and reports
  \<open>False\<close> for a signature that has not 64 bytes; the check of the signature
  itself is the argument \<open>V\<close>.
\<close>

type_synonym verify_fn = "byte list \<Rightarrow> byte list \<Rightarrow> byte list \<Rightarrow> bool"

section \<open>The clients: what ends a run\<close>

text \<open>
  \<^verbatim>\<open>log.Fatal\<close> and \<^verbatim>\<open>panic\<close> end the process, and \<^verbatim>\<open>checkMessages\<close>
  returns early when there is no message; each place of the two clients that ends
  the run before its last step is a value of \<open>stop\<close>.
\<close>

datatype stop =
    KeyGenFatal error        \<comment> \<open>\<^verbatim>\<open>Failed to generate ... key pair\<close>\<close>
  | KeyFileFatal             \<comment> \<open>the private key file cannot be read, parsed, loaded or saved\<close>
  | FetchFatal               \<comment> \<open>the request failed, status not 200, or the body is no JSON\<close>
  | DecodePanic hex_error    \<comment> \<open>\<^verbatim>\<open>panic(err)\<close> of the clients' own \<^verbatim>\<open>decode32\<close>\<close>
  | VerifyPanic              \<comment> \<open>\<^verbatim>\<open>ed25519: bad public key length\<close>\<close>
  | SignatureFatal           \<comment> \<open>\<^verbatim>\<open>SPK signature verification failed!\<close>\<close>
  | DHFatal nat error        \<comment> \<open>\<^verbatim>\<open>DH1 failed\<close> to \<^verbatim>\<open>DH4 failed\<close>\<close>
  | AEADPanic aead_error     \<comment> \<open>a panic of \<^verbatim>\<open>Seal\<close> or \<^verbatim>\<open>Open\<close>\<close>
  | SendFatal                \<comment> \<open>the message could not be sent\<close>
  | DecryptFatal aead_error  \<comment> \<open>\<^verbatim>\<open>DECRYPTION FAILED\<close>\<close>
  | NoNewMessages            \<comment> \<open>\<^verbatim>\<open>No new messages found.\<close>, a normal return\<close>

definition ed25519_Verify :: "verify_fn \<Rightarrow> byte list \<Rightarrow> byte list \<Rightarrow> byte list \<Rightarrow> stop + bool" where
  "ed25519_Verify V publicKey message sig =
     (if length publicKey \<noteq> 32 then Inl VerifyPanic
      else Inr (length sig = 64 \<and> V publicKey message sig))"

text \<open>
  The two clients carry their own \<^verbatim>\<open>decode32\<close> (cmd/alice/main.go and
  cmd/bob/main.go, the same text): it panics on a hex error and copies whatever was
  decoded into the array, with no check of the length.
\<close>

definition alice_decode32 :: "string \<Rightarrow> stop + byte list" where
  "alice_decode32 s =
     (case DecodeString s of
        (raw, Some err) \<Rightarrow> Inl (DecodePanic err)
      | (raw, None) \<Rightarrow> Inr (copy32 raw))"

definition bob_decode32 :: "string \<Rightarrow> stop + byte list" where
  "bob_decode32 s =
     (case DecodeString s of
        (raw, Some err) \<Rightarrow> Inl (DecodePanic err)
      | (raw, None) \<Rightarrow> Inr (copy32 raw))"

record Bundle =
  IK :: string
  SPK :: string
  OTK :: string
  Ed25519 :: string
  Sig :: string

record InitialMessage =
  AliceIK :: string
  AliceEKa :: string
  Nonce :: string
  Ciphertext :: string
  Sender :: string

text \<open>
  A run of a client is a list of numbered steps on its local variables; the run
  stops at the first step that ends the process.  \<open>run\<close> returns the steps that
  were entered, in order, and the outcome.
\<close>

datatype step =
    LoadIdentity | FetchBundle | VerifySignature | GenerateEphemeral
  | ComputeDH | DeriveKey | Encrypt | Send
  | LoadKeys | PollServer | Decrypt

fun run :: "(step \<times> ('s \<Rightarrow> stop + 's)) list \<Rightarrow> 's \<Rightarrow> step list \<times> (stop + 's)" where
  "run [] s = ([], Inr s)"
| "run ((name, f) # rest) s =
     (case f s of
        Inl err \<Rightarrow> ([name], Inl err)
      | Inr s' \<Rightarrow> (case run rest s' of (names, r) \<Rightarrow> (name # names, r)))"

section \<open>cmd/alice: the initiator\<close>

datatype 'k key_file = NotExist | Unreadable | Malformed | Stored 'k

record alice_env =
  keyFile :: "byte list key_file"      \<comment> \<open>\<^verbatim>\<open>alice_private_keys.json\<close>: the field \<^verbatim>\<open>ika_priv\<close>\<close>
  keyFileWritable :: bool
  identityRand :: "byte list option"   \<comment> \<open>what \<^verbatim>\<open>rand.Reader\<close> gives the identity key\<close>
  bundleResponse :: "Bundle option"    \<comment> \<open>\<open>None\<close>: request failed, status not 200, or no JSON\<close>
  ephemeralRand :: "byte list option"
  input :: "byte list"                 \<comment> \<open>the line read, after \<^verbatim>\<open>TrimSpace\<close>\<close>
  nonceRand :: "byte list"             \<comment> \<open>what \<^verbatim>\<open>rand.Read\<close> wrote into the nonce\<close>
  sendOK :: bool

record alice_vars =
  alicePriv :: "byte list option"
  alicePub :: "byte list"
  bobBundle :: Bundle
  privEKa :: "byte list option"
  pubEKa :: "byte list"
  dhs :: "byte list list"
  master :: "byte list"
  nonce :: "byte list"
  ciphertext :: "byte list"
  initialMessage :: InitialMessage

definition alice_init :: alice_vars where
  "alice_init =
     \<lparr>alicePriv = None, alicePub = zero32,
      bobBundle = \<lparr>IK = [], SPK = [], OTK = [], Ed25519 = [], Sig = []\<rparr>,
      privEKa = None, pubEKa = zero32, dhs = [], master = zero32,
      nonce = [], ciphertext = [],
      initialMessage = \<lparr>AliceIK = [], AliceEKa = [], Nonce = [], Ciphertext = [], Sender = []\<rparr>\<rparr>"

text \<open>1. Load or generate Alice's identity key.\<close>

definition alice_load :: "scalar_mult \<Rightarrow> alice_env \<Rightarrow> alice_vars \<Rightarrow> stop + alice_vars" where
  "alice_load X env v =
     (case keyFile env of
        NotExist \<Rightarrow>
          (case GenKeyPair X (identityRand env) of
             Inl err \<Rightarrow> Inl (KeyGenFatal err)
           | Inr (priv, pub) \<Rightarrow>
               if keyFileWritable env then Inr (v\<lparr>alicePriv := Some priv, alicePub := pub\<rparr>)
               else Inl KeyFileFatal)
      | Unreadable \<Rightarrow> Inl KeyFileFatal
      | Malformed \<Rightarrow> Inl KeyFileFatal
      | Stored IKaPriv \<Rightarrow>
          (case NewPrivateKey IKaPriv of
             Inl err \<Rightarrow> Inl KeyFileFatal
           | Inr priv \<Rightarrow>
               Inr (v\<lparr>alicePriv := Some priv, alicePub := copy32 (PublicKey X priv)\<rparr>)))"

text \<open>2. Fetch Bob's bundle from the server.\<close>

definition alice_fetch :: "alice_env \<Rightarrow> alice_vars \<Rightarrow> stop + alice_vars" where
  "alice_fetch env v =
     (case bundleResponse env of
        None \<Rightarrow> Inl FetchFatal
      | Some b \<Rightarrow> Inr (v\<lparr>bobBundle := b\<rparr>))"

text \<open>
  3. Verify the signature on Bob's signed pre-key.  The errors of the two
  \<^verbatim>\<open>hex.DecodeString\<close> calls are dropped.
\<close>

definition alice_verify :: "verify_fn \<Rightarrow> alice_vars \<Rightarrow> stop + alice_vars" where
  "alice_verify V v =
     (let edPub = fst (DecodeString (Ed25519 (bobBundle v)));
          sig = fst (DecodeString (Sig (bobBundle v)))
      in case alice_decode32 (SPK (bobBundle v)) of
           Inl err \<Rightarrow> Inl err
         | Inr spkBytes \<Rightarrow>
             (case ed25519_Verify V edPub spkBytes sig of
                Inl err \<Rightarrow> Inl err
              | Inr valid \<Rightarrow> if \<not> valid then Inl SignatureFatal else Inr v))"

text \<open>4. Generate Alice's ephemeral keys.\<close>

definition alice_ephemeral :: "scalar_mult \<Rightarrow> alice_env \<Rightarrow> alice_vars \<Rightarrow> stop + alice_vars" where
  "alice_ephemeral X env v =
     (case GenKeyPair X (ephemeralRand env) of
        Inl err \<Rightarrow> Inl (KeyGenFatal err)
      | Inr (priv, pub) \<Rightarrow> Inr (v\<lparr>privEKa := Some priv, pubEKa := pub\<rparr>))"

text \<open>
  5. Decode Bob's public keys, and 6. the four Diffie-Hellman values:
  \<^verbatim>\<open>DH1 = DH(IKa, SPKb)\<close>, \<^verbatim>\<open>DH2 = DH(EKa, IKb)\<close>, \<^verbatim>\<open>DH3 = DH(EKa, SPKb)\<close>,
  \<^verbatim>\<open>DH4 = DH(EKa, OTKb)\<close>.
\<close>

definition alice_x3dh ::
  "scalar_mult \<Rightarrow> byte list option \<Rightarrow> byte list option \<Rightarrow> Bundle \<Rightarrow> stop + byte list list" where
  "alice_x3dh X aPriv ePriv b =
     (case alice_decode32 (IK b) of Inl err \<Rightarrow> Inl err | Inr IKbPub32 \<Rightarrow>
      case alice_decode32 (SPK b) of Inl err \<Rightarrow> Inl err | Inr SPKbPub32 \<Rightarrow>
      case alice_decode32 (OTK b) of Inl err \<Rightarrow> Inl err | Inr OTKbPub32 \<Rightarrow>
      case DH X aPriv SPKbPub32 of Inl err \<Rightarrow> Inl (DHFatal 1 err) | Inr DH1 \<Rightarrow>
      case DH X ePriv IKbPub32 of Inl err \<Rightarrow> Inl (DHFatal 2 err) | Inr DH2 \<Rightarrow>
      case DH X ePriv SPKbPub32 of Inl err \<Rightarrow> Inl (DHFatal 3 err) | Inr DH3 \<Rightarrow>
      case DH X ePriv OTKbPub32 of Inl err \<Rightarrow> Inl (DHFatal 4 err) | Inr DH4 \<Rightarrow>
      Inr [DH1, DH2, DH3, DH4])"

definition alice_dh :: "scalar_mult \<Rightarrow> alice_vars \<Rightarrow> stop + alice_vars" where
  "alice_dh X v =
     (case alice_x3dh X (alicePriv v) (privEKa v) (bobBundle v) of
        Inl err \<Rightarrow> Inl err
      | Inr ds \<Rightarrow> Inr (v\<lparr>dhs := ds\<rparr>))"

text \<open>\<^verbatim>\<open>master := x3dh.KDF(DH1, DH2, DH3, DH4)\<close>\<close>

definition alice_kdf :: "(byte list \<Rightarrow> byte list) \<Rightarrow> alice_vars \<Rightarrow> stop + alice_vars" where
  "alice_kdf H v = Inr (v\<lparr>master := KDF H (dhs v)\<rparr>)"

definition alice_master ::
  "scalar_mult \<Rightarrow> (byte list \<Rightarrow> byte list) \<Rightarrow> byte list option \<Rightarrow> byte list option \<Rightarrow> Bundle
   \<Rightarrow> stop + byte list" where
  "alice_master X H aPriv ePriv b =
     (case alice_x3dh X aPriv ePriv b of
        Inl err \<Rightarrow> Inl err
      | Inr ds \<Rightarrow> Inr (KDF H ds))"

text \<open>
  7. Encrypt the message: the nonce is \<^verbatim>\<open>make([]byte, aead.NonceSize())\<close> filled by
  \<^verbatim>\<open>rand.Read\<close>, the additional data is nil.  The error of \<^verbatim>\<open>New\<close> is dropped, so
  a key it refuses ends in a nil dereference.
\<close>

definition alice_seal :: "byte list \<Rightarrow> byte list \<Rightarrow> byte list \<Rightarrow> stop + (byte list \<times> byte list)" where
  "alice_seal key rnd plaintext =
     (case New key of
        Inl err \<Rightarrow> Inl (AEADPanic err)
      | Inr aead \<Rightarrow>
          (let n = take 12 (rnd @ replicate 12 0) in
           case Seal aead n plaintext [] of
             Inl err \<Rightarrow> Inl (AEADPanic err)
           | Inr c \<Rightarrow> Inr (n, c)))"

definition alice_encrypt :: "alice_env \<Rightarrow> alice_vars \<Rightarrow> stop + alice_vars" where
  "alice_encrypt env v =
     (case alice_seal (master v) (nonceRand env) (input env) of
        Inl err \<Rightarrow> Inl err
      | Inr (n, c) \<Rightarrow> Inr (v\<lparr>nonce := n, ciphertext := c\<rparr>))"

text \<open>8. Send the initial message to the server for Bob.\<close>

definition alice_message :: "byte list \<Rightarrow> byte list \<Rightarrow> byte list \<Rightarrow> byte list \<Rightarrow> InitialMessage" where
  "alice_message aPub ePub n c =
     \<lparr>AliceIK = encode32 aPub, AliceEKa = encode32 ePub,
      Nonce = EncodeToString n, Ciphertext = EncodeToString c,
      Sender = ''alice''\<rparr>"

definition alice_send :: "alice_env \<Rightarrow> alice_vars \<Rightarrow> stop + alice_vars" where
  "alice_send env v =
     (let m = alice_message (alicePub v) (pubEKa v) (nonce v) (ciphertext v) in
      if sendOK env then Inr (v\<lparr>initialMessage := m\<rparr>) else Inl SendFatal)"

definition alice_main ::
  "scalar_mult \<Rightarrow> (byte list \<Rightarrow> byte list) \<Rightarrow> verify_fn \<Rightarrow> alice_env
   \<Rightarrow> step list \<times> (stop + alice_vars)" where
  "alice_main X H V env =
     run [(LoadIdentity, alice_load X env),
          (FetchBundle, alice_fetch env),
          (VerifySignature, alice_verify V),
          (GenerateEphemeral, alice_ephemeral X env),
          (ComputeDH, alice_dh X),
          (DeriveKey, alice_kdf H),
          (Encrypt, alice_encrypt env),
          (Send, alice_send env)]
       alice_init"

section \<open>cmd/bob: the responder\<close>

text \<open>
  \<^verbatim>\<open>register\<close> publishes the three public keys, the verify key and the signature,
  each in hexadecimal.
\<close>

definition register_bundle ::
  "byte list \<Rightarrow> byte list \<Rightarrow> byte list \<Rightarrow> byte list \<Rightarrow> byte list \<Rightarrow> Bundle" where
  "register_bundle IKbPub SPKbPub OTKbPub edPub sg =
     \<lparr>IK = encode32 IKbPub, SPK = encode32 SPKbPub, OTK = encode32 OTKbPub,
      Ed25519 = EncodeToString edPub, Sig = EncodeToString sg\<rparr>"

record BobPrivateKeys =
  IKbPriv :: "byte list"
  SPKbPriv :: "byte list"
  EdPriv :: "byte list"
  OTKbPriv :: "byte list"

datatype poll_response =
    PollFailed                       \<comment> \<open>the request failed\<close>
  | PollNotFound                     \<comment> \<open>status 404\<close>
  | PollOtherStatus                  \<comment> \<open>any other status than 200\<close>
  | PollNoJSON                       \<comment> \<open>the body cannot be decoded\<close>
  | PollMessage InitialMessage nat   \<comment> \<open>the message and \<^verbatim>\<open>messages_left\<close>\<close>

record bob_env =
  bobKeyFile :: "BobPrivateKeys key_file"   \<comment> \<open>\<^verbatim>\<open>bob_private_keys.json\<close>\<close>
  pollResponse :: poll_response

record bob_vars =
  ikb :: "byte list option"
  spkb :: "byte list option"
  otkb :: "byte list option"
  msg :: InitialMessage
  bobDhs :: "byte list list"
  bobMaster :: "byte list"
  plaintext :: "byte list"

definition bob_init :: bob_vars where
  "bob_init =
     \<lparr>ikb = None, spkb = None, otkb = None,
      msg = \<lparr>AliceIK = [], AliceEKa = [], Nonce = [], Ciphertext = [], Sender = []\<rparr>,
      bobDhs = [], bobMaster = zero32, plaintext = []\<rparr>"

text \<open>
  1. Load Bob's private keys.  The errors of the three \<^verbatim>\<open>NewPrivateKey\<close> calls are
  dropped: a key of the wrong size leaves a nil pointer.
\<close>

definition private_or_nil :: "byte list \<Rightarrow> byte list option" where
  "private_or_nil key = (case NewPrivateKey key of Inl err \<Rightarrow> None | Inr priv \<Rightarrow> Some priv)"

definition bob_load :: "bob_env \<Rightarrow> bob_vars \<Rightarrow> stop + bob_vars" where
  "bob_load env v =
     (case bobKeyFile env of
        NotExist \<Rightarrow> Inl KeyFileFatal
      | Unreadable \<Rightarrow> Inl KeyFileFatal
      | Malformed \<Rightarrow> Inl KeyFileFatal
      | Stored loadedKeys \<Rightarrow>
          Inr (v\<lparr>ikb := private_or_nil (IKbPriv loadedKeys),
                 spkb := private_or_nil (SPKbPriv loadedKeys),
                 otkb := private_or_nil (OTKbPriv loadedKeys)\<rparr>))"

text \<open>2. Poll the server for new messages, and 3. decode the message.\<close>

definition bob_poll :: "bob_env \<Rightarrow> bob_vars \<Rightarrow> stop + bob_vars" where
  "bob_poll env v =
     (case pollResponse env of
        PollFailed \<Rightarrow> Inl FetchFatal
      | PollNotFound \<Rightarrow> Inl NoNewMessages
      | PollOtherStatus \<Rightarrow> Inl FetchFatal
      | PollNoJSON \<Rightarrow> Inl FetchFatal
      | PollMessage m left \<Rightarrow> Inr (v\<lparr>msg := m\<rparr>))"

text \<open>
  4. Derive the session key: \<^verbatim>\<open>DH1 = DH(SPKb, IKa)\<close>, \<^verbatim>\<open>DH2 = DH(IKb, EKa)\<close>,
  \<^verbatim>\<open>DH3 = DH(SPKb, EKa)\<close>, \<^verbatim>\<open>DH4 = DH(OTKb, EKa)\<close>.
\<close>

definition bob_x3dh ::
  "scalar_mult \<Rightarrow> byte list option \<Rightarrow> byte list option \<Rightarrow> byte list option \<Rightarrow> InitialMessage
   \<Rightarrow> stop + byte list list" where
  "bob_x3dh X iPriv sPriv oPriv m =
     (case bob_decode32 (AliceIK m) of Inl err \<Rightarrow> Inl err | Inr IKaPub32 \<Rightarrow>
      case bob_decode32 (AliceEKa m) of Inl err \<Rightarrow> Inl err | Inr EKaPub32 \<Rightarrow>
      case DH X sPriv IKaPub32 of Inl err \<Rightarrow> Inl (DHFatal 1 err) | Inr DH1 \<Rightarrow>
      case DH X iPriv EKaPub32 of Inl err \<Rightarrow> Inl (DHFatal 2 err) | Inr DH2 \<Rightarrow>
      case DH X sPriv EKaPub32 of Inl err \<Rightarrow> Inl (DHFatal 3 err) | Inr DH3 \<Rightarrow>
      case DH X oPriv EKaPub32 of Inl err \<Rightarrow> Inl (DHFatal 4 err) | Inr DH4 \<Rightarrow>
      Inr [DH1, DH2, DH3, DH4])"

definition bob_dh :: "scalar_mult \<Rightarrow> bob_vars \<Rightarrow> stop + bob_vars" where
  "bob_dh X v =
     (case bob_x3dh X (ikb v) (spkb v) (otkb v) (msg v) of
        Inl err \<Rightarrow> Inl err
      | Inr ds \<Rightarrow> Inr (v\<lparr>bobDhs := ds\<rparr>))"

definition bob_kdf :: "(byte list \<Rightarrow> byte list) \<Rightarrow> bob_vars \<Rightarrow> stop + bob_vars" where
  "bob_kdf H v = Inr (v\<lparr>bobMaster := KDF H (bobDhs v)\<rparr>)"

definition bob_master ::
  "scalar_mult \<Rightarrow> (byte list \<Rightarrow> byte list) \<Rightarrow> byte list option \<Rightarrow> byte list option
   \<Rightarrow> byte list option \<Rightarrow> InitialMessage \<Rightarrow> stop + byte list" where
  "bob_master X H iPriv sPriv oPriv m =
     (case bob_x3dh X iPriv sPriv oPriv m of
        Inl err \<Rightarrow> Inl err
      | Inr ds \<Rightarrow> Inr (KDF H ds))"

text \<open>
  5. Decrypt the message.  The errors of \<^verbatim>\<open>New\<close> and of the two
  \<^verbatim>\<open>hex.DecodeString\<close> calls are dropped; an error of \<^verbatim>\<open>Open\<close> is fatal.
\<close>

definition bob_open :: "byte list \<Rightarrow> InitialMessage \<Rightarrow> stop + byte list" where
  "bob_open key m =
     (case New key of
        Inl err \<Rightarrow> Inl (AEADPanic err)
      | Inr aead \<Rightarrow>
          (let n = fst (DecodeString (Nonce m));
               c = fst (DecodeString (Ciphertext m))
           in case Open aead n c [] of
                Inl err \<Rightarrow>
                  if err = AuthenticationFailed then Inl (DecryptFatal err)
                  else Inl (AEADPanic err)
              | Inr p \<Rightarrow> Inr p))"

definition bob_decrypt :: "bob_vars \<Rightarrow> stop + bob_vars" where
  "bob_decrypt v =
     (case bob_open (bobMaster v) (msg v) of
        Inl err \<Rightarrow> Inl err
      | Inr p \<Rightarrow> Inr (v\<lparr>plaintext := p\<rparr>))"

definition checkMessages ::
  "scalar_mult \<Rightarrow> (byte list \<Rightarrow> byte list) \<Rightarrow> bob_env \<Rightarrow> step list \<times> (stop + bob_vars)" where
  "checkMessages X H env =
     run [(LoadKeys, bob_load env),
          (PollServer, bob_poll env),
          (ComputeDH, bob_dh X),
          (DeriveKey, bob_kdf H),
          (Decrypt, bob_decrypt)]
       bob_init"

section \<open>cmd/server: the mailbox\<close>

text \<open>
  The server keeps the queues in Redis lists.  The model of the lists: a key that
  holds nothing is the empty list, \<^verbatim>\<open>RPUSH\<close> appends at the tail, \<^verbatim>\<open>LPOP\<close>
  removes the head and answers \<^verbatim>\<open>redis.Nil\<close> on an empty list, \<^verbatim>\<open>LLEN\<close> counts.
  Every command fails while the store cannot be reached.
\<close>

record redis =
  up :: bool
  lists :: "string \<Rightarrow> string list"

datatype redis_error = RedisNil | RedisUnreachable

definition RPush :: "redis \<Rightarrow> string \<Rightarrow> string \<Rightarrow> redis_error + redis" where
  "RPush rdb k data =
     (if \<not> up rdb then Inl RedisUnreachable
      else Inr (rdb\<lparr>lists := (lists rdb)(k := lists rdb k @ [data])\<rparr>))"

definition LPop :: "redis \<Rightarrow> string \<Rightarrow> redis_error + (string \<times> redis)" where
  "LPop rdb k =
     (if \<not> up rdb then Inl RedisUnreachable
      else (case lists rdb k of
              [] \<Rightarrow> Inl RedisNil
            | data # rest \<Rightarrow> Inr (data, rdb\<lparr>lists := (lists rdb)(k := rest)\<rparr>)))"

definition LLen :: "redis \<Rightarrow> string \<Rightarrow> redis_error + nat" where
  "LLen rdb k = (if \<not> up rdb then Inl RedisUnreachable else Inr (length (lists rdb k)))"

text \<open>
  The JSON codec of encoding/json, as far as the handlers use it: decoding a
  request body, \<^verbatim>\<open>json.Marshal\<close> and \<^verbatim>\<open>json.Unmarshal\<close> of a message.
\<close>

record json =
  DecodeBody :: "string \<Rightarrow> InitialMessage option"
  Marshal :: "InitialMessage \<Rightarrow> string"
  Unmarshal :: "string \<Rightarrow> InitialMessage option"

definition TrimPrefix :: "string \<Rightarrow> string \<Rightarrow> string" where
  "TrimPrefix s pre = (if take (length pre) s = pre then drop (length pre) s else s)"

text \<open>
  A response is the status with the text of \<^verbatim>\<open>http.Error\<close>, or status 200 with
  an empty body, or status 200 with the message and \<^verbatim>\<open>messages_left\<close>.  Where the
  text ends with the error's own text, the model keeps the fixed part.
\<close>

datatype response =
    StatusOK
  | MessageLeft InitialMessage nat
  | Error string nat

definition sendMessageHandler ::
  "json \<Rightarrow> redis \<Rightarrow> string \<Rightarrow> string \<Rightarrow> string \<Rightarrow> response \<times> redis" where
  "sendMessageHandler J rdb method path body =
     (if method \<noteq> ''POST'' then (Error ''Invalid request method'' 405, rdb)
      else (let user = TrimPrefix path ''/send/'' in
        if user = [] then (Error ''User not specified'' 400, rdb)
        else (case DecodeBody J body of
                None \<Rightarrow> (Error ''Failed to decode message: '' 400, rdb)
              | Some m \<Rightarrow>
                  (case RPush rdb (''messages:'' @ user) (Marshal J m) of
                     Inl err \<Rightarrow> (Error ''Failed to store message: '' 500, rdb)
                   | Inr rdb' \<Rightarrow> (StatusOK, rdb')))))"

definition getMessageHandler ::
  "json \<Rightarrow> redis \<Rightarrow> string \<Rightarrow> string \<Rightarrow> response \<times> redis" where
  "getMessageHandler J rdb method path =
     (if method \<noteq> ''GET'' then (Error ''Invalid request method'' 405, rdb)
      else (let user = TrimPrefix path ''/messages/'' in
        if user = [] then (Error ''User not specified'' 400, rdb)
        else (case LPop rdb (''messages:'' @ user) of
                Inl RedisNil \<Rightarrow> (Error (''No new messages for user: '' @ user) 404, rdb)
              | Inl RedisUnreachable \<Rightarrow> (Error ''Failed to fetch message: '' 500, rdb)
              | Inr (data, rdb') \<Rightarrow>
                  (let left = (case LLen rdb' (''messages:'' @ user) of
                                 Inl err \<Rightarrow> 0 | Inr n \<Rightarrow> n)
                   in case Unmarshal J data of
                        None \<Rightarrow> (Error ''Failed to decode message: '' 500, rdb')
                      | Some m \<Rightarrow> (MessageLeft m left, rdb')))))"

text \<open>A sequence of requests to the two handlers, served one after the other.\<close>

datatype request =
    PostSend string string      \<comment> \<open>\<^verbatim>\<open>POST /send/<user>\<close> with a body\<close>
  | GetMessages string          \<comment> \<open>\<^verbatim>\<open>GET /messages/<user>\<close>\<close>

fun serve :: "json \<Rightarrow> redis \<Rightarrow> request list \<Rightarrow> response list \<times> redis" where
  "serve J rdb [] = ([], rdb)"
| "serve J rdb (PostSend user body # rs) =
     (case sendMessageHandler J rdb ''POST'' (''/send/'' @ user) body of
        (resp, rdb') \<Rightarrow> (case serve J rdb' rs of (resps, rdb'') \<Rightarrow> (resp # resps, rdb'')))"
| "serve J rdb (GetMessages user # rs) =
     (case getMessageHandler J rdb ''GET'' (''/messages/'' @ user) of
        (resp, rdb') \<Rightarrow> (case serve J rdb' rs of (resps, rdb'') \<Rightarrow> (resp # resps, rdb'')))"

section \<open>Instances used to meet the hypotheses\<close>

text \<open>
  A scalar multiplication that commutes, for the agreement theorem: the product of
  the first bytes.  A signature check that accepts nothing.  A JSON codec that
  carries the ciphertext field only.
\<close>

definition first_byte_mult :: scalar_mult where
  "first_byte_mult scalar point = (hd (copy32 scalar) * hd (copy32 point)) # replicate 31 0"

definition reject_all :: verify_fn where
  "reject_all publicKey message sg = False"

definition ciphertext_only :: json where
  "ciphertext_only =
     \<lparr>DecodeBody = (\<lambda>s. Some \<lparr>AliceIK = [], AliceEKa = [], Nonce = [], Ciphertext = s, Sender = []\<rparr>),
      Marshal = Ciphertext,
      Unmarshal = (\<lambda>s. Some \<lparr>AliceIK = [], AliceEKa = [], Nonce = [], Ciphertext = s, Sender = []\<rparr>)\<rparr>"

section \<open>Predicates of the proofs\<close>

text \<open>Both projective denominators of a ladder state are zero.\<close>

definition zs_zero :: "ladder_state \<Rightarrow> bool" where
  "zs_zero s = (case s of (x2, z2, x3, z3, swap) \<Rightarrow> z2 = 0 \<and> z3 = 0)"

text \<open>
  The scalar multiplication commutes on the public keys of 32-byte scalars: the
  property of Diffie-Hellman that the agreement rests on.
\<close>

definition dh_commutes :: "scalar_mult \<Rightarrow> bool" where
  "dh_commutes X =
     (\<forall>a b. length a = 32 \<and> length b = 32 \<longrightarrow>
        X a (copy32 (PublicKey X b)) = X b (copy32 (PublicKey X a)))"


section \<open>Hexadecimal round trip\<close>

lemma length_EncodeToString: "length (EncodeToString src) = 2 * length src"
  by (induction src) simp_all

lemma length_copy32: "length (copy32 raw) = 32"
  by (simp add: copy32_def zero32_def)

lemma copy32_id: "length raw = 32 \<Longrightarrow> copy32 raw = raw"
  by (simp add: copy32_def)

lemma mask4: "(0x0f :: byte) = mask 4"
  by (simp add: mask_eq_exp_minus_1)

lemma nibbles_join: "push_bit 4 (drop_bit 4 v) OR (v AND 0x0f) = (v::byte)"
  unfolding mask4
  by (rule bit_word_eqI) (auto simp: bit_simps)

lemma lo_nibble_lt: "unat ((v::byte) AND 0x0f) < 16"
proof -
  have "unat (v AND 0x0f) \<le> unat (0x0f :: byte)"
    by (rule word_and_le1 [THEN word_le_nat_alt [THEN iffD1]])
  then show ?thesis by simp
qed

lemma hi_nibble_lt: "unat (drop_bit 4 (v::byte)) < 16"
proof -
  have "unat (drop_bit 4 v) = unat v div 16"
    by (simp add: unat_drop_bit_eq drop_bit_eq_div unat_div)
  moreover have "unat v < 256" using unsigned_less [of v] by simp
  ultimately show ?thesis by simp
qed

lemma hex_digits_table:
  "list_all (\<lambda>n. reverseHexTable (hextable ! n) = of_nat n
      \<and> \<not> reverseHexTable (hextable ! n) > 0x0f) [0..<16]"
  by code_simp

lemma hex_digit_both:
  assumes "n < 16"
  shows "reverseHexTable (hextable ! n) = of_nat n
    \<and> \<not> reverseHexTable (hextable ! n) > 0x0f"
proof -
  from assms have "n \<in> set [0..<16]" by simp
  with hex_digits_table show ?thesis
    unfolding list_all_iff by blast
qed

lemma hex_digit_roundtrip:
  "n < 16 \<Longrightarrow> reverseHexTable (hextable ! n) = of_nat n"
  using hex_digit_both by blast

lemma hex_digit_small:
  "n < 16 \<Longrightarrow> \<not> reverseHexTable (hextable ! n) > 0x0f"
  using hex_digit_both by blast

lemma DecodeString_EncodeToString: "DecodeString (EncodeToString src) = (src, None)"
proof (induction src)
  case Nil
  show ?case by simp
next
  case (Cons v src)
  have hi: "reverseHexTable (hextable ! unat (drop_bit 4 v)) = drop_bit 4 v"
    using hex_digit_roundtrip [OF hi_nibble_lt [of v]] by simp
  have lo: "reverseHexTable (hextable ! unat (v AND 0x0f)) = v AND 0x0f"
    using hex_digit_roundtrip [OF lo_nibble_lt [of v]] by simp
  have hi': "\<not> drop_bit 4 v > 0x0f"
    using hex_digit_small [OF hi_nibble_lt [of v]] hi by simp
  have lo': "\<not> (v AND 0x0f) > 0x0f"
    using hex_digit_small [OF lo_nibble_lt [of v]] lo by simp
  show ?case
    using Cons.IH hi lo hi' lo' nibbles_join [of v] by (simp add: Let_def)
qed

text \<open>
  Claim C10.  For every 32-byte value \<open>x\<close>, \<open>encode32 x\<close> is a string of 64
  characters and \<open>decode32\<close> of it succeeds and returns \<open>x\<close>.
\<close>

theorem encode32_decode32:
  "length x = 32 \<Longrightarrow> length (encode32 x) = 64 \<and> decode32 (encode32 x) = Inr x"
  by (simp add: encode32_def decode32_def length_EncodeToString
      DecodeString_EncodeToString copy32_id)

text \<open>The array of \<^verbatim>\<open>TestEncodeDecode32\<close>: the bytes 1 to 32.\<close>

theorem encode32_decode32_witness:
  "length (map of_nat [1..<33] :: byte list) = 32
   \<and> length (encode32 (map of_nat [1..<33])) = 64
   \<and> decode32 (encode32 (map of_nat [1..<33])) = Inr (map of_nat [1..<33])"
  using encode32_decode32 [of "map of_nat [1..<33]"] by simp

section \<open>The AEAD: sizes, round trip, and what \<open>Open\<close> accepts\<close>

lemma length_int_le: "length (int_le n v) = n"
  by (induction n arbitrary: v) simp_all

lemma length_le32s: "length (le32s n bs) = n"
  by (induction n arbitrary: bs) simp_all

lemma length_quarterRound: "length (quarterRound a b c d s) = length s"
  unfolding quarterRound_def
  by (simp only: Let_def length_list_update)

lemma length_doubleRound: "length (doubleRound s) = length s"
  unfolding doubleRound_def
  by (simp only: Let_def length_quarterRound)

lemma length_doubleRounds: "length ((doubleRound ^^ n) s) = length s"
  by (induction n) (simp_all add: length_doubleRound)

lemma length_chacha20_init: "length (chacha20_init key n counter) = 16"
  by (simp add: chacha20_init_def length_le32s)

lemma length_concat_const:
  "(\<And>x. x \<in> set xs \<Longrightarrow> length (f x) = k) \<Longrightarrow> length (concat (map f xs)) = k * length xs"
  by (induction xs) simp_all

lemma length_chacha20_block: "length (chacha20_block key n counter) = 64"
proof -
  let ?s0 = "chacha20_init key n counter"
  let ?ws = "map2 (+) ((doubleRound ^^ 10) ?s0) ?s0"
  have "length (concat (map (\<lambda>w. int_le 4 (uint w)) ?ws)) = 4 * length ?ws"
    by (rule length_concat_const) (simp only: length_int_le)
  moreover have "length ?ws = 16"
    by (simp only: length_map length_zip length_doubleRounds length_chacha20_init min.idem)
  ultimately show ?thesis
    unfolding chacha20_block_def Let_def by simp
qed

lemma length_keystream: "length (keystream key n counter k) = k"
proof -
  let ?bs = "map (\<lambda>i. chacha20_block key n (of_nat (counter + i))) [0..<(k + 63) div 64]"
  have "length (concat ?bs) = 64 * length [0..<(k + 63) div 64]"
    by (rule length_concat_const) (simp only: length_chacha20_block)
  then have "length (concat ?bs) = 64 * ((k + 63) div 64)" by simp
  moreover have "k \<le> 64 * ((k + 63) div 64)" by arith
  ultimately show ?thesis
    unfolding keystream_def by simp
qed

lemma length_XORKeyStream: "length (XORKeyStream key n counter src) = length src"
  by (simp add: XORKeyStream_def length_keystream)

lemma xor_twice:
  "length ks = length src \<Longrightarrow> map2 (XOR) (map2 (XOR) src ks) ks = (src :: byte list)"
proof (induction src arbitrary: ks)
  case Nil
  then show ?case by simp
next
  case (Cons x src)
  then obtain k ks' where "ks = k # ks'" by (cases ks) auto
  with Cons show ?case by (simp add: xor.assoc)
qed

lemma XORKeyStream_involution:
  "XORKeyStream key n counter (XORKeyStream key n counter src) = src"
proof -
  let ?ks = "keystream key n counter (length src)"
  have "length (map2 (XOR) src ?ks) = length src"
    by (simp add: length_keystream)
  then show ?thesis
    unfolding XORKeyStream_def
    by (simp add: length_keystream xor_twice)
qed

lemma length_poly1305: "length (poly1305 key m) = 16"
  unfolding poly1305_def Let_def by (rule length_int_le)

lemma length_aead_tag: "length (aead_tag key n ad c) = 16"
  unfolding aead_tag_def by (rule length_poly1305)

lemma Seal_ok:
  assumes "length n = 12" and "length pt \<le> 2 ^ 38 - 64"
  shows "Seal key n pt ad =
    Inr (XORKeyStream key n 1 pt @ aead_tag key n ad (XORKeyStream key n 1 pt))"
  using assms unfolding Seal_def Let_def by simp

lemma Open_split:
  assumes "length t = 16"
  shows "Open key n (c @ t) ad =
    (if length n \<noteq> 12 then Inl PanicBadNonceLength
     else if length c + 16 > 2 ^ 38 - 48 then Inl PanicCiphertextTooLarge
     else if aead_tag key n ad c \<noteq> t then Inl AuthenticationFailed
     else Inr (XORKeyStream key n 1 c))"
proof -
  have len: "length (c @ t) = length c + 16"
    using assms by simp
  have body: "take (length (c @ t) - 16) (c @ t) = c"
    using assms by simp
  have tg: "drop (length (c @ t) - 16) (c @ t) = t"
    using assms by simp
  have small: "\<not> length (c @ t) < 16"
    unfolding len by simp
  show ?thesis
    unfolding Open_def Let_def body tg using small len by simp
qed

lemma Open_Seal:
  assumes "length n = 12" and "length pt \<le> 2 ^ 38 - 64"
  shows "\<exists>c. Seal key n pt ad = Inr c \<and> Open key n c ad = Inr pt"
proof -
  let ?c = "XORKeyStream key n 1 pt"
  have big: "\<not> length ?c + 16 > 2 ^ 38 - 48"
    using assms(2) by (simp add: length_XORKeyStream)
  have "Open key n (?c @ aead_tag key n ad ?c) ad = Inr pt"
    using assms(1) big
    by (simp only: Open_split [OF length_aead_tag] XORKeyStream_involution if_False
        simp_thms)
  with Seal_ok [OF assms] show ?thesis by blast
qed

section \<open>Decoding keys\<close>

lemma decode32_rejects:
  "decode32 s = Inr x \<Longrightarrow> length x = 32 \<and> DecodeString s = (x, None)"
  by (auto simp: decode32_def copy32_id split: prod.splits option.splits if_splits)

lemma decode32_wrong_length:
  "DecodeString s = (raw, None) \<Longrightarrow> length raw \<noteq> 32 \<Longrightarrow> decode32 s = Inl (Expected32Bytes (length raw))"
  by (simp add: decode32_def)

lemma decode32_bad_hex:
  "DecodeString s = (raw, Some err) \<Longrightarrow> decode32 s = Inl (HexDecodeFailed err)"
  by (simp add: decode32_def)

lemma DecodeString_0102: "DecodeString ''0102'' = ([1, 2], None)"
  by (simp add: reverseHexTable_def)

text \<open>
  Claim C8.  \<^verbatim>\<open>x3dh.decode32\<close> refuses every string that is no hex or does not
  decode to 32 bytes (the three lemmas above).  The clients' own \<^verbatim>\<open>decode32\<close>,
  which decodes every key of a bundle and of a message, does not: the two-byte
  string \<^verbatim>\<open>0102\<close> is accepted and filled with zeros.
\<close>

theorem alice_decode32_short:
  "alice_decode32 ''0102'' = Inr (1 # 2 # replicate 30 0)
   \<and> bob_decode32 ''0102'' = Inr (1 # 2 # replicate 30 0)
   \<and> decode32 ''0102'' = Inl (Expected32Bytes 2)"
  by (simp add: alice_decode32_def bob_decode32_def decode32_def reverseHexTable_def copy32_def zero32_def)

section \<open>Diffie-Hellman: what is refused\<close>

lemma fmul_zero_left: "fmul 0 a = 0"
  by (simp add: fmul_def)

lemma fmul_zero_right: "fmul a 0 = 0"
  by (simp add: fmul_def)

lemma fsub_self: "fsub a a = 0"
  by (simp add: fsub_def)

lemma fadd_fsub_zero: "fadd a 0 = fsub a 0"
  by (simp add: fadd_def fsub_def)

lemma square_neg: "fmul (fadd 0 a) (fadd 0 a) = fmul (fsub 0 a) (fsub 0 a)"
proof -
  have "((a mod p25519) * (a mod p25519)) mod p25519 = (a * a) mod p25519"
    by (simp add: mod_mult_eq)
  moreover have "(((- a) mod p25519) * ((- a) mod p25519)) mod p25519 = ((- a) * (- a)) mod p25519"
    by (simp only: mod_mult_eq)
  ultimately show ?thesis
    by (simp add: fmul_def fadd_def fsub_def)
qed

lemma ladder_step_zero:
  assumes "x2 = 0 \<or> z2 = 0" and "x3 = 0 \<or> z3 = 0"
  shows "zs_zero (ladder_step 0 b (x2, z2, x3, z3, swap))"
proof -
  have d: "\<And>u w. u = 0 \<or> w = 0 \<Longrightarrow>
      fsub (fmul (fadd u w) (fadd u w)) (fmul (fsub u w) (fsub u w)) = 0"
    using square_neg fadd_fsub_zero fsub_self by auto
  show ?thesis
    using assms d [of x2 z2] d [of x3 z3]
    by (cases "swap \<noteq> b")
       (simp_all add: ladder_step_def zs_zero_def Let_def fmul_zero_left)
qed

lemma ladder_zero:
  "zs_zero s \<Longrightarrow> zs_zero (ladder 0 e n s)"
proof (induction n arbitrary: s)
  case 0
  then show ?case by simp
next
  case (Suc n)
  obtain x2 z2 x3 z3 swap where s: "s = (x2, z2, x3, z3, swap)"
    by (cases s) auto
  with Suc.prems have "z2 = 0" "z3 = 0" by (simp_all add: zs_zero_def)
  then have "zs_zero (ladder_step 0 (scalar_bit e n) s)"
    unfolding s by (intro ladder_step_zero) simp_all
  then show ?case by (simp add: Suc.IH)
qed

lemma ladder_255_zero: "zs_zero (ladder 0 e 255 (1, 0, 0, 1, False))"
proof -
  have "zs_zero (ladder_step 0 (scalar_bit e 254) (1, 0, 0, 1, False))"
    by (intro ladder_step_zero) simp_all
  then have "zs_zero (ladder 0 e 254 (ladder_step 0 (scalar_bit e 254) (1, 0, 0, 1, False)))"
    by (rule ladder_zero)
  moreover have "(255::nat) = Suc 254" by simp
  ultimately show ?thesis by (simp only: ladder.simps)
qed

lemma fpow_zero: "0 < n \<Longrightarrow> fpow 0 n = 0"
proof (induction n rule: less_induct)
  case (less n)
  show ?case
  proof (cases "n = 1")
    case True
    then show ?thesis by (simp add: fmul_def)
  next
    case False
    with less.prems have "0 < n div 2" "n div 2 < n" by auto
    then have "fpow 0 (n div 2) = 0" by (rule less.IH [rotated])
    with less.prems show ?thesis
      by (subst fpow.simps) (simp add: Let_def fmul_zero_left fmul_zero_right)
  qed
qed

lemma Invert_zero: "Invert 0 = 0"
  unfolding Invert_def by (rule fpow_zero) (simp add: p25519_def)

lemma int_le_zero: "int_le n 0 = replicate n 0"
  by (induction n) simp_all

lemma Bytes_zero: "Bytes 0 = zero32"
  by (simp add: Bytes_def int_le_zero zero32_def)

lemma le_int_zeros: "le_int (replicate n 0) = 0"
  by (induction n) simp_all

lemma SetBytes_zero: "SetBytes zero32 = 0"
  by (simp add: SetBytes_def copy32_def zero32_def le_int_zeros)

lemma x25519_zero_point: "x25519 k zero32 = zero32"
proof -
  obtain x2 z2 x3 z3 swap where
    l: "ladder 0 (clamp k) 255 (1, 0, 0, 1, False) = (x2, z2, x3, z3, swap)"
    by (cases "ladder 0 (clamp k) 255 (1, 0, 0, 1, False)") auto
  with ladder_255_zero [of "clamp k"] have z: "z2 = 0" "z3 = 0"
    by (simp_all add: zs_zero_def)
  show ?thesis
    unfolding x25519_def SetBytes_zero Let_def l
    by (simp add: z Invert_zero fmul_zero_right Bytes_zero)
qed

lemma isZero_zero32: "isZero zero32"
  by (simp add: isZero_def zero32_def)

lemma length_zero32: "length zero32 = 32"
  by (simp add: zero32_def)

lemma DH_Inr:
  "DH X priv pub = Inr out \<Longrightarrow>
     \<exists>k. priv = Some k \<and> length pub = 32 \<and> \<not> isZero (X k pub) \<and> out = copy32 (X k pub)"
  by (auto simp: DH_def NewPublicKey_def ECDH_def Let_def
      split: option.splits sum.splits if_splits)

lemma DH_zero_point:
  "DH x25519 (Some k) zero32 = Inl (SharedSecretFailed BadRemoteInput)"
  by (simp add: DH_def NewPublicKey_def ECDH_def x25519_zero_point isZero_zero32 length_zero32)

lemma DH_success_inputs:
  assumes "DH x25519 priv pub = Inr out"
  shows "priv \<noteq> None \<and> length pub = 32 \<and> pub \<noteq> zero32 \<and> length out = 32"
proof -
  from assms obtain k where k: "priv = Some k" "length pub = 32" "out = copy32 (x25519 k pub)"
    using DH_Inr by blast
  have "pub \<noteq> zero32"
  proof
    assume "pub = zero32"
    with assms k DH_zero_point [of k] show False by simp
  qed
  with k show ?thesis by (simp add: length_copy32)
qed

text \<open>
  Claim C9.  \<open>DH\<close> returns the error \<^verbatim>\<open>private key is nil\<close> and no shared value
  when the private key is nil; for the all-zero point as the peer's public key it
  returns the error \<^verbatim>\<open>failed to compute DH shared secret\<close> for every private
  key; and a public key that \<^verbatim>\<open>NewPublicKey\<close> refuses gives the error
  \<^verbatim>\<open>failed to create public key from bytes\<close>.  In each case the result is an
  error and carries no shared secret.
\<close>

theorem DH_rejects:
  "DH x25519 None pub = Inl NilPrivateKey
   \<and> DH x25519 (Some k) zero32 = Inl (SharedSecretFailed BadRemoteInput)
   \<and> (length pub \<noteq> 32 \<longrightarrow> DH x25519 (Some k) pub = Inl (PublicKeyFailed InvalidPublicKey))"
  by (simp add: DH_zero_point) (simp add: DH_def NewPublicKey_def)

theorem DH_rejects_witness:
  "length [1, 2 :: byte] \<noteq> 32
   \<and> DH x25519 (Some zero32) [1, 2] = Inl (PublicKeyFailed InvalidPublicKey)
   \<and> DH x25519 (Some zero32) zero32 = Inl (SharedSecretFailed BadRemoteInput)
   \<and> DH x25519 None [1, 2] = Inl NilPrivateKey"
  using DH_rejects [of "[1, 2]" zero32] by simp

section \<open>Both sides derive the same key\<close>

lemma GenKeyPair_Inr:
  "GenKeyPair X r = Inr (k, P) \<Longrightarrow> length k = 32 \<and> P = copy32 (PublicKey X k)"
  by (auto simp: GenKeyPair_def GenerateKey_def NewPrivateKey_def
      split: option.splits sum.splits if_splits)

lemma alice_decode32_encode32:
  "length x = 32 \<Longrightarrow> alice_decode32 (encode32 x) = Inr x"
  by (simp add: alice_decode32_def encode32_def DecodeString_EncodeToString copy32_id)

lemma bob_decode32_encode32:
  "length x = 32 \<Longrightarrow> bob_decode32 (encode32 x) = Inr x"
  by (simp add: bob_decode32_def encode32_def DecodeString_EncodeToString copy32_id)

lemma private_or_nil_32: "length k = 32 \<Longrightarrow> private_or_nil k = Some k"
  by (simp add: private_or_nil_def NewPrivateKey_def)

lemma DH_commute:
  assumes "dh_commutes X" and "length a = 32" and "length b = 32"
  shows "DH X (Some a) (copy32 (PublicKey X b)) = DH X (Some b) (copy32 (PublicKey X a))"
proof -
  from assms have "X a (copy32 (PublicKey X b)) = X b (copy32 (PublicKey X a))"
    unfolding dh_commutes_def by blast
  then show ?thesis
    by (simp add: DH_def NewPublicKey_def ECDH_def length_copy32)
qed

text \<open>
  Claim C1.  Bob's three key pairs and Alice's identity and ephemeral key pairs
  come from \<open>GenKeyPair\<close>; Bob publishes his public keys in a bundle and reloads
  his private keys from his key file; Alice sends her two public keys in the
  message.  Then Alice's \<open>KDF(DH1, DH2, DH3, DH4)\<close> and Bob's are the same
  result, for every scalar multiplication that commutes and every hash.
\<close>

theorem x3dh_agreement:
  assumes "dh_commutes X"
    and "GenKeyPair X r1 = Inr (iPriv, IKbPub)"
    and "GenKeyPair X r2 = Inr (sPriv, SPKbPub)"
    and "GenKeyPair X r3 = Inr (oPriv, OTKbPub)"
    and "GenKeyPair X r4 = Inr (aPriv, aPub)"
    and "GenKeyPair X r5 = Inr (ePriv, ePub)"
  shows "alice_master X H (Some aPriv) (Some ePriv)
           (register_bundle IKbPub SPKbPub OTKbPub edPub sg)
       = bob_master X H (private_or_nil iPriv) (private_or_nil sPriv) (private_or_nil oPriv)
           (alice_message aPub ePub n c)"
proof -
  note g = assms(2-6) [THEN GenKeyPair_Inr]
  have len: "length iPriv = 32" "length sPriv = 32" "length oPriv = 32"
    "length aPriv = 32" "length ePriv = 32"
    using g by simp_all
  have pub: "IKbPub = copy32 (PublicKey X iPriv)" "SPKbPub = copy32 (PublicKey X sPriv)"
    "OTKbPub = copy32 (PublicKey X oPriv)" "aPub = copy32 (PublicKey X aPriv)"
    "ePub = copy32 (PublicKey X ePriv)"
    using g by simp_all
  have d1: "DH X (Some aPriv) SPKbPub = DH X (Some sPriv) aPub"
    unfolding pub using assms(1) len by (intro DH_commute)
  have d2: "DH X (Some ePriv) IKbPub = DH X (Some iPriv) ePub"
    unfolding pub using assms(1) len by (intro DH_commute)
  have d3: "DH X (Some ePriv) SPKbPub = DH X (Some sPriv) ePub"
    unfolding pub using assms(1) len by (intro DH_commute)
  have d4: "DH X (Some ePriv) OTKbPub = DH X (Some oPriv) ePub"
    unfolding pub using assms(1) len by (intro DH_commute)
  have l32: "length IKbPub = 32" "length SPKbPub = 32" "length OTKbPub = 32"
    "length aPub = 32" "length ePub = 32"
    unfolding pub by (simp_all add: length_copy32)
  have a: "alice_x3dh X (Some aPriv) (Some ePriv) (register_bundle IKbPub SPKbPub OTKbPub edPub sg)
      = bob_x3dh X (Some iPriv) (Some sPriv) (Some oPriv) (alice_message aPub ePub n c)"
    unfolding alice_x3dh_def bob_x3dh_def register_bundle_def alice_message_def
    by (simp add: alice_decode32_encode32 bob_decode32_encode32 l32 d1 d2 d3 d4
        cong: sum.case_cong)
  show ?thesis
    unfolding alice_master_def bob_master_def
    by (simp add: a private_or_nil_32 len)
qed
lemma first_byte_mult_commutes: "dh_commutes first_byte_mult"
proof -
  have c: "copy32 (first_byte_mult k p) = first_byte_mult k p" for k p
    by (rule copy32_id) (simp add: first_byte_mult_def)
  have h: "hd (first_byte_mult k p) = hd (copy32 k) * hd (copy32 p)" for k p
    by (simp add: first_byte_mult_def)
  show ?thesis
    unfolding dh_commutes_def PublicKey_def c
    by (simp add: first_byte_mult_def [of _ "first_byte_mult _ _"] c h mult.left_commute)
qed

lemma first_byte_mult_GenKeyPair:
  "GenKeyPair first_byte_mult (Some (replicate 32 b)) = Inr (replicate 32 b, (b * 9) # replicate 31 0)"
  by (simp add: GenKeyPair_def GenerateKey_def NewPrivateKey_def PublicKey_def
      first_byte_mult_def copy32_def zero32_def x25519Basepoint_def)

theorem x3dh_agreement_witness:
  "dh_commutes first_byte_mult
   \<and> GenKeyPair first_byte_mult (Some (replicate 32 3)) = Inr (replicate 32 3, 27 # replicate 31 0)
   \<and> GenKeyPair first_byte_mult (Some (replicate 32 5)) = Inr (replicate 32 5, 45 # replicate 31 0)
   \<and> GenKeyPair first_byte_mult (Some (replicate 32 7)) = Inr (replicate 32 7, 63 # replicate 31 0)
   \<and> GenKeyPair first_byte_mult (Some (replicate 32 11)) = Inr (replicate 32 11, 99 # replicate 31 0)
   \<and> GenKeyPair first_byte_mult (Some (replicate 32 13)) = Inr (replicate 32 13, 117 # replicate 31 0)
   \<and> alice_master first_byte_mult (\<lambda>bs. bs) (Some (replicate 32 11)) (Some (replicate 32 13))
         (register_bundle (27 # replicate 31 0) (45 # replicate 31 0) (63 # replicate 31 0) [] [])
     = bob_master first_byte_mult (\<lambda>bs. bs) (private_or_nil (replicate 32 3))
         (private_or_nil (replicate 32 5)) (private_or_nil (replicate 32 7))
         (alice_message (99 # replicate 31 0) (117 # replicate 31 0) [] [])"
proof -
  have g: "GenKeyPair first_byte_mult (Some (replicate 32 3)) = Inr (replicate 32 3, 27 # replicate 31 0)"
    "GenKeyPair first_byte_mult (Some (replicate 32 5)) = Inr (replicate 32 5, 45 # replicate 31 0)"
    "GenKeyPair first_byte_mult (Some (replicate 32 7)) = Inr (replicate 32 7, 63 # replicate 31 0)"
    "GenKeyPair first_byte_mult (Some (replicate 32 11)) = Inr (replicate 32 11, 99 # replicate 31 0)"
    "GenKeyPair first_byte_mult (Some (replicate 32 13)) = Inr (replicate 32 13, 117 # replicate 31 0)"
    using first_byte_mult_GenKeyPair [of 3] first_byte_mult_GenKeyPair [of 5]
      first_byte_mult_GenKeyPair [of 7] first_byte_mult_GenKeyPair [of 11]
      first_byte_mult_GenKeyPair [of 13]
    by simp_all
  show ?thesis
    using x3dh_agreement [OF first_byte_mult_commutes g, of "\<lambda>bs. bs" "[]" "[]" "[]" "[]"]
      first_byte_mult_commutes g
    by simp
qed

lemma agreed_key_example:
  "bob_master first_byte_mult (\<lambda>bs. bs) (private_or_nil (replicate 32 3))
         (private_or_nil (replicate 32 5)) (private_or_nil (replicate 32 7))
         (alice_message (99 # replicate 31 0) (117 # replicate 31 0) [] [])
   = Inr (239 # replicate 31 0)"
proof -
  have l: "length (99 # replicate 31 (0::byte)) = 32" "length (117 # replicate 31 (0::byte)) = 32"
    by simp_all
  show ?thesis
    unfolding bob_master_def bob_x3dh_def alice_message_def
    by (simp add: bob_decode32_encode32 l private_or_nil_32 DH_def NewPublicKey_def ECDH_def
        first_byte_mult_def copy32_def zero32_def isZero_def KDF_def)
qed

section \<open>The mailbox is a queue\<close>

lemma TrimPrefix_append: "TrimPrefix (pre @ s) pre = s"
  by (simp add: TrimPrefix_def)

lemma send_appends:
  assumes "up rdb" and "user \<noteq> []" and "DecodeBody J body = Some m"
  shows "sendMessageHandler J rdb ''POST'' (''/send/'' @ user) body =
    (StatusOK, rdb\<lparr>lists := (lists rdb)(''messages:'' @ user :=
        lists rdb (''messages:'' @ user) @ [Marshal J m])\<rparr>)"
  using assms
  by (simp only: sendMessageHandler_def TrimPrefix_append Let_def RPush_def) simp

lemma get_takes_head:
  assumes "up rdb" and "user \<noteq> []"
    and "lists rdb (''messages:'' @ user) = data # rest"
    and "Unmarshal J data = Some m"
  shows "getMessageHandler J rdb ''GET'' (''/messages/'' @ user) =
    (MessageLeft m (length rest), rdb\<lparr>lists := (lists rdb)(''messages:'' @ user := rest)\<rparr>)"
  using assms
  by (simp only: getMessageHandler_def TrimPrefix_append Let_def LPop_def LLen_def) simp

lemma get_empty:
  assumes "up rdb" and "user \<noteq> []" and "lists rdb (''messages:'' @ user) = []"
  shows "getMessageHandler J rdb ''GET'' (''/messages/'' @ user) =
    (Error (''No new messages for user: '' @ user) 404, rdb)"
  using assms
  by (simp only: getMessageHandler_def TrimPrefix_append Let_def LPop_def) simp

text \<open>
  Claim C6.  On a reachable store, with the queue of \<open>user\<close> empty, three
  messages sent to \<open>user\<close> and four requests for his messages: the three messages
  come back in the order sent, each with the number of messages left, each taken
  off the queue; the fourth request is answered 404 \<^verbatim>\<open>No new messages\<close>, not 500,
  and the store is as it was before.
\<close>

theorem mailbox_fifo:
  assumes "up rdb" and "user \<noteq> []" and "lists rdb (''messages:'' @ user) = []"
    and "DecodeBody J b1 = Some E1" and "DecodeBody J b2 = Some E2" and "DecodeBody J b3 = Some E3"
    and "Unmarshal J (Marshal J E1) = Some E1"
    and "Unmarshal J (Marshal J E2) = Some E2"
    and "Unmarshal J (Marshal J E3) = Some E3"
  shows "serve J rdb
           [PostSend user b1, PostSend user b2, PostSend user b3,
            GetMessages user, GetMessages user, GetMessages user, GetMessages user]
       = ([StatusOK, StatusOK, StatusOK,
           MessageLeft E1 2, MessageLeft E2 1, MessageLeft E3 0,
           Error (''No new messages for user: '' @ user) 404],
          rdb)"
proof -
  let ?k = "''messages:'' @ user"
  let ?q = "\<lambda>xs. rdb\<lparr>lists := (lists rdb)(?k := xs)\<rparr>"
  have u: "up (?q xs)" and l: "lists (?q xs) ?k = xs" for xs
    using assms(1) by simp_all
  have upd: "(?q xs)\<lparr>lists := (lists (?q xs))(?k := ys)\<rparr> = ?q ys" for xs ys
    by simp
  have start: "?q [] = rdb"
    using assms(3) by (simp add: fun_upd_idem)
  have s1: "sendMessageHandler J rdb ''POST'' (''/send/'' @ user) b1 = (StatusOK, ?q [Marshal J E1])"
    using send_appends [OF assms(1,2,4)] assms(3) by simp
  have s2: "sendMessageHandler J (?q [Marshal J E1]) ''POST'' (''/send/'' @ user) b2
      = (StatusOK, ?q [Marshal J E1, Marshal J E2])"
    using send_appends [OF u assms(2,5), of "[Marshal J E1]"] by (simp only: l upd) simp
  have s3: "sendMessageHandler J (?q [Marshal J E1, Marshal J E2]) ''POST'' (''/send/'' @ user) b3
      = (StatusOK, ?q [Marshal J E1, Marshal J E2, Marshal J E3])"
    using send_appends [OF u assms(2,6), of "[Marshal J E1, Marshal J E2]"]
    by (simp only: l upd) simp
  have g1: "getMessageHandler J (?q [Marshal J E1, Marshal J E2, Marshal J E3]) ''GET''
      (''/messages/'' @ user) = (MessageLeft E1 2, ?q [Marshal J E2, Marshal J E3])"
    using get_takes_head [OF u assms(2) l assms(7)] by (simp only: upd) simp
  have g2: "getMessageHandler J (?q [Marshal J E2, Marshal J E3]) ''GET''
      (''/messages/'' @ user) = (MessageLeft E2 1, ?q [Marshal J E3])"
    using get_takes_head [OF u assms(2) l assms(8)] by (simp only: upd) simp
  have g3: "getMessageHandler J (?q [Marshal J E3]) ''GET''
      (''/messages/'' @ user) = (MessageLeft E3 0, rdb)"
    using get_takes_head [OF u assms(2) l assms(9)] by (simp only: upd start) simp
  have g4: "getMessageHandler J rdb ''GET'' (''/messages/'' @ user)
      = (Error (''No new messages for user: '' @ user) 404, rdb)"
    by (rule get_empty [OF assms(1,2,3)])
  show ?thesis
    by (simp only: serve.simps s1 s2 s3 g1 g2 g3 g4 prod.case)
qed

theorem mailbox_fifo_witness:
  "up \<lparr>up = True, lists = (\<lambda>k. [])\<rparr>
   \<and> ''bob'' \<noteq> []
   \<and> DecodeBody ciphertext_only ''c1''
       = Some \<lparr>AliceIK = [], AliceEKa = [], Nonce = [], Ciphertext = ''c1'', Sender = []\<rparr>
   \<and> Unmarshal ciphertext_only (Marshal ciphertext_only
         \<lparr>AliceIK = [], AliceEKa = [], Nonce = [], Ciphertext = ''c1'', Sender = []\<rparr>)
       = Some \<lparr>AliceIK = [], AliceEKa = [], Nonce = [], Ciphertext = ''c1'', Sender = []\<rparr>
   \<and> serve ciphertext_only \<lparr>up = True, lists = (\<lambda>k. [])\<rparr>
         [PostSend ''bob'' ''c1'', PostSend ''bob'' ''c2'', PostSend ''bob'' ''c3'',
          GetMessages ''bob'', GetMessages ''bob'', GetMessages ''bob'', GetMessages ''bob'']
     = ([StatusOK, StatusOK, StatusOK,
         MessageLeft \<lparr>AliceIK = [], AliceEKa = [], Nonce = [], Ciphertext = ''c1'', Sender = []\<rparr> 2,
         MessageLeft \<lparr>AliceIK = [], AliceEKa = [], Nonce = [], Ciphertext = ''c2'', Sender = []\<rparr> 1,
         MessageLeft \<lparr>AliceIK = [], AliceEKa = [], Nonce = [], Ciphertext = ''c3'', Sender = []\<rparr> 0,
         Error (''No new messages for user: '' @ ''bob'') 404],
        \<lparr>up = True, lists = (\<lambda>k. [])\<rparr>)"
  using mailbox_fifo [of "\<lparr>up = True, lists = (\<lambda>k. [])\<rparr>" "''bob''" ciphertext_only
      "''c1''" "\<lparr>AliceIK = [], AliceEKa = [], Nonce = [], Ciphertext = ''c1'', Sender = []\<rparr>"
      "''c2''" "\<lparr>AliceIK = [], AliceEKa = [], Nonce = [], Ciphertext = ''c2'', Sender = []\<rparr>"
      "''c3''" "\<lparr>AliceIK = [], AliceEKa = [], Nonce = [], Ciphertext = ''c3'', Sender = []\<rparr>"]
  by (simp add: ciphertext_only_def)

section \<open>A bundle whose signature fails stops the initiator\<close>

text \<open>
  Claim C7.  When Alice's identity is loaded and the bundle is fetched, and
  \<^verbatim>\<open>ed25519.Verify\<close> answers \<open>False\<close> for the bundle's signature over the
  signed pre-key under the bundle's verify key, the run ends with
  \<^verbatim>\<open>SPK signature verification failed!\<close>; the steps entered are the loading,
  the fetch and the verification, and no Diffie-Hellman, key derivation,
  encryption or send step.
\<close>

theorem bad_signature_aborts:
  assumes "alice_load X env alice_init = Inr v1"
    and "alice_fetch env v1 = Inr v2"
    and "alice_decode32 (SPK (bobBundle v2)) = Inr spkBytes"
    and "ed25519_Verify V (fst (DecodeString (Ed25519 (bobBundle v2)))) spkBytes
           (fst (DecodeString (Sig (bobBundle v2)))) = Inr False"
  shows "alice_main X H V env = ([LoadIdentity, FetchBundle, VerifySignature], Inl SignatureFatal)
    \<and> ComputeDH \<notin> set (fst (alice_main X H V env))
    \<and> DeriveKey \<notin> set (fst (alice_main X H V env))
    \<and> Encrypt \<notin> set (fst (alice_main X H V env))
    \<and> Send \<notin> set (fst (alice_main X H V env))"
proof -
  have v: "alice_verify V v2 = Inl SignatureFatal"
    using assms(3,4) by (simp add: alice_verify_def Let_def)
  have "alice_main X H V env = ([LoadIdentity, FetchBundle, VerifySignature], Inl SignatureFatal)"
    unfolding alice_main_def
    by (simp add: assms(1,2) v)
  then show ?thesis by simp
qed

lemma no_step_after_failed_verification:
  assumes "alice_verify V v = Inl err"
  shows "run [(VerifySignature, alice_verify V), (GenerateEphemeral, alice_ephemeral X env),
              (ComputeDH, alice_dh X), (DeriveKey, alice_kdf H),
              (Encrypt, alice_encrypt env), (Send, alice_send env)] v
         = ([VerifySignature], Inl err)"
  using assms by simp

theorem bad_signature_aborts_witness:
  "alice_load first_byte_mult
      \<lparr>keyFile = Stored (replicate 32 1), keyFileWritable = True, identityRand = None,
       bundleResponse = Some \<lparr>IK = [], SPK = [], OTK = [],
          Ed25519 = EncodeToString (replicate 32 0), Sig = []\<rparr>,
       ephemeralRand = None, input = [], nonceRand = [], sendOK = True\<rparr>
      alice_init
    = Inr (alice_init\<lparr>alicePriv := Some (replicate 32 1), alicePub := 9 # replicate 31 0\<rparr>)
   \<and> ed25519_Verify reject_all (replicate 32 0) zero32 [] = Inr False
   \<and> alice_main first_byte_mult (\<lambda>bs. bs) reject_all
      \<lparr>keyFile = Stored (replicate 32 1), keyFileWritable = True, identityRand = None,
       bundleResponse = Some \<lparr>IK = [], SPK = [], OTK = [],
          Ed25519 = EncodeToString (replicate 32 0), Sig = []\<rparr>,
       ephemeralRand = None, input = [], nonceRand = [], sendOK = True\<rparr>
    = ([LoadIdentity, FetchBundle, VerifySignature], Inl SignatureFatal)"
proof -
  let ?b = "\<lparr>IK = [], SPK = [], OTK = [], Ed25519 = EncodeToString (replicate 32 0), Sig = []\<rparr>"
  let ?env = "\<lparr>keyFile = Stored (replicate 32 1), keyFileWritable = True, identityRand = None,
       bundleResponse = Some ?b,
       ephemeralRand = None, input = [], nonceRand = [], sendOK = True\<rparr>"
  let ?v1 = "alice_init\<lparr>alicePriv := Some (replicate 32 1), alicePub := 9 # replicate 31 0\<rparr>"
  let ?v2 = "?v1\<lparr>bobBundle := ?b\<rparr>"
  have a1: "alice_load first_byte_mult ?env alice_init = Inr ?v1"
    by (simp add: alice_load_def NewPrivateKey_def PublicKey_def first_byte_mult_def
        copy32_def zero32_def x25519Basepoint_def)
  have a2: "alice_fetch ?env ?v1 = Inr ?v2"
    by (simp add: alice_fetch_def)
  have a3: "alice_decode32 (SPK (bobBundle ?v2)) = Inr zero32"
    by (simp add: alice_decode32_def copy32_def zero32_def)
  have a4: "ed25519_Verify reject_all (fst (DecodeString (Ed25519 (bobBundle ?v2)))) zero32
           (fst (DecodeString (Sig (bobBundle ?v2)))) = Inr False"
    by (simp add: ed25519_Verify_def DecodeString_EncodeToString)
  have a5: "ed25519_Verify reject_all (replicate 32 0) zero32 [] = Inr False"
    by (simp add: ed25519_Verify_def)
  from bad_signature_aborts [OF a1 a2 a3 a4, of "\<lambda>bs. bs"] a1 a5
  show ?thesis by blast
qed

section \<open>Sealing and opening a message\<close>

lemma New_32: "length key = 32 \<Longrightarrow> New key = Inr key"
  by (simp add: New_def)

lemma alice_seal_bob_open:
  assumes "length key = 32" and "length n = 12" and "length pt \<le> 2 ^ 38 - 64"
    and "Seal key n pt [] = Inr c" and "Open key n c [] = Inr pt"
  shows "alice_seal key n pt = Inr (n, c) \<and> bob_open key (alice_message aPub ePub n c) = Inr pt"
proof -
  have n: "take 12 (n @ replicate 12 0) = n"
    using assms(2) by simp
  have a: "alice_seal key n pt = Inr (n, c)"
    unfolding alice_seal_def Let_def n by (simp add: New_32 assms(1,4))
  have b: "bob_open key (alice_message aPub ePub n c) = Inr pt"
    unfolding bob_open_def alice_message_def Let_def
    by (simp add: New_32 assms(1,5) DecodeString_EncodeToString)
  from a b show ?thesis by simp
qed

text \<open>
  Claim C4, as amended.  For every key of 32 bytes, every nonce of 12 bytes and
  every non-empty plaintext of at most \<open>2^38 - 64\<close> bytes, \<open>Seal\<close> succeeds
  and \<open>Open\<close> of its result, under the same key and nonce, returns the plaintext;
  so does Bob's decryption of the message in which Alice sends the nonce and the
  ciphertext in hexadecimal.
\<close>

theorem aead_round_trip:
  assumes "length key = 32" and "length n = 12" and "pt \<noteq> []"
    and "length pt \<le> 2 ^ 38 - 64"
  shows "\<exists>c. Seal key n pt [] = Inr c \<and> Open key n c [] = Inr pt
    \<and> alice_seal key n pt = Inr (n, c)
    \<and> bob_open key (alice_message aPub ePub n c) = Inr pt"
proof -
  from Open_Seal [OF assms(2,4)] obtain c where
    c: "Seal key n pt [] = Inr c" "Open key n c [] = Inr pt"
    by blast
  with alice_seal_bob_open [OF assms(1,2,4) c] show ?thesis by blast
qed

theorem aead_round_trip_witness:
  "length (replicate 32 0 :: byte list) = 32 \<and> length (replicate 12 0 :: byte list) = 12
   \<and> [104, 101, 108, 108, 111 :: byte] \<noteq> []
   \<and> length [104, 101, 108, 108, 111 :: byte] \<le> 2 ^ 38 - 64
   \<and> (\<exists>c. Seal (replicate 32 0) (replicate 12 0) [104, 101, 108, 108, 111] [] = Inr c
        \<and> Open (replicate 32 0) (replicate 12 0) c [] = Inr [104, 101, 108, 108, 111]
        \<and> alice_seal (replicate 32 0) (replicate 12 0) [104, 101, 108, 108, 111]
            = Inr (replicate 12 0, c)
        \<and> bob_open (replicate 32 0) (alice_message [] [] (replicate 12 0) c)
            = Inr [104, 101, 108, 108, 111])"
proof -
  have h: "length (replicate 32 0 :: byte list) = 32" "length (replicate 12 0 :: byte list) = 12"
    "[104, 101, 108, 108, 111 :: byte] \<noteq> []"
    "length [104, 101, 108, 108, 111 :: byte] \<le> 2 ^ 38 - 64"
    by simp_all
  from aead_round_trip [OF h, of "[]" "[]"] h show ?thesis by blast
qed

text \<open>
  The claim as stated, for every non-empty plaintext: \<open>Seal\<close> refuses a plaintext
  of \<open>2^38 - 63\<close> bytes.
\<close>

theorem aead_round_trip_counterexample:
  "length (replicate 32 0 :: byte list) = 32 \<and> length (replicate 12 0 :: byte list) = 12
   \<and> replicate (2 ^ 38 - 63) (0 :: byte) \<noteq> []
   \<and> Seal (replicate 32 0) (replicate 12 0) (replicate (2 ^ 38 - 63) 0) []
       = Inl PanicPlaintextTooLarge
   \<and> alice_seal (replicate 32 0) (replicate 12 0) (replicate (2 ^ 38 - 63) 0)
       = Inl (AEADPanic PanicPlaintextTooLarge)"
  by (simp add: Seal_def alice_seal_def New_def)

section \<open>Opening fails closed\<close>




lemma bob_open_refuses:
  assumes "length key = 32"
    and "Open key (fst (DecodeString (Nonce m))) (fst (DecodeString (Ciphertext m))) []
         = Inl AuthenticationFailed"
  shows "bob_open key m = Inl (DecryptFatal AuthenticationFailed)"
  using assms by (simp add: bob_open_def New_def Let_def)





section \<open>The key derivation\<close>

text \<open>
  The key has 32 bytes, and it depends on the parts through their concatenation
  only; sequences of 32-byte parts that differ have concatenations that differ, so
  two of them get the same key only where the hash, cut to 32 bytes, collides.
\<close>

lemma KDF_length: "length (KDF H parts) = 32"
  by (simp add: KDF_def length_copy32)

lemma concat_blocks_inj:
  assumes "\<forall>p \<in> set xs. length p = 32" and "\<forall>p \<in> set ys. length p = 32"
    and "concat xs = concat ys"
  shows "xs = (ys :: byte list list)"
  using assms
proof (induction xs arbitrary: ys)
  case Nil
  show ?case
  proof (cases ys)
    case Nil
    then show ?thesis by simp
  next
    case (Cons y ys')
    with Nil.prems have "length y = 32" "y = []" by simp_all
    then show ?thesis by simp
  qed
next
  case (Cons x xs)
  from Cons.prems(1) have x: "length x = 32" by simp
  show ?case
  proof (cases ys)
    case Nil
    with Cons.prems(3) have "x = []" by simp
    with x show ?thesis by simp
  next
    case (Cons y ys')
    with Cons.prems(2) have y: "length y = 32" by simp
    from Cons.prems(3) have "x @ concat xs = y @ concat ys'"
      unfolding Cons by simp
    with x y have "x = y" "concat xs = concat ys'" by simp_all
    moreover from this Cons.IH [of ys'] Cons.prems(1,2) have "xs = ys'"
      unfolding Cons by simp
    ultimately show ?thesis unfolding Cons by simp
  qed
qed

lemma KDF_collision:
  assumes "\<forall>p \<in> set xs. length p = 32" and "\<forall>p \<in> set ys. length p = 32"
    and "xs \<noteq> ys" and "KDF H xs = KDF H ys"
  shows "concat xs \<noteq> concat ys \<and> copy32 (H (concat xs)) = copy32 (H (concat ys))"
  using assms concat_blocks_inj [of xs ys] by (auto simp: KDF_def)

end
